theory Spec2Isabelle
  imports Complex_Main
begin

section \<open>JavaScript values\<close>

text \<open>
  A JavaScript number is a finite value, one of the two infinities, or NaN. The program
  only tests numbers (truthiness, \<^verbatim>\<open>Number.isFinite\<close>, \<^verbatim>\<open>>\<close> and
  \<^verbatim>\<open><=\<close>); it never computes with them, so a finite double is kept as the real
  number it denotes. Positive and negative zero are both \<open>Finite 0\<close>: every test in the
  program treats them alike.
\<close>

datatype jsnum = Finite real | PosInfinity | NegInfinity | NaN

text \<open>\<^verbatim>\<open>Number.isFinite\<close> on a number.\<close>

fun isFinite :: "jsnum \<Rightarrow> bool" where
  "isFinite (Finite x) = True"
| "isFinite PosInfinity = False"
| "isFinite NegInfinity = False"
| "isFinite NaN = False"

text \<open>The relational operators \<^verbatim>\<open>a > b\<close> and \<^verbatim>\<open>a <= b\<close> on numbers: both are
  false as soon as one operand is NaN.\<close>

fun num_gt :: "jsnum \<Rightarrow> jsnum \<Rightarrow> bool" where
  "num_gt NaN b = False"
| "num_gt a NaN = False"
| "num_gt (Finite x) (Finite y) = (x > y)"
| "num_gt (Finite x) PosInfinity = False"
| "num_gt (Finite x) NegInfinity = True"
| "num_gt PosInfinity PosInfinity = False"
| "num_gt PosInfinity b = True"
| "num_gt NegInfinity b = False"

fun num_le :: "jsnum \<Rightarrow> jsnum \<Rightarrow> bool" where
  "num_le NaN b = False"
| "num_le a NaN = False"
| "num_le (Finite x) (Finite y) = (x \<le> y)"
| "num_le (Finite x) PosInfinity = True"
| "num_le (Finite x) NegInfinity = False"
| "num_le PosInfinity PosInfinity = True"
| "num_le PosInfinity b = False"
| "num_le NegInfinity b = True"

text \<open>
  The values a field of type \<^verbatim>\<open>unknown\<close> can hold at run time: the primitive values
  that \<^verbatim>\<open>structuredClone\<close> copies. A missing property reads as \<open>JUndefined\<close>.
  Objects, functions and symbols are outside the model.
\<close>

datatype jsvalue =
    JUndefined
  | JNull
  | JBoolean bool
  | JNumber jsnum
  | JString string
  | JBigInt int

text \<open>ToBoolean: what \<^verbatim>\<open>!v\<close> negates.\<close>

fun truthy :: "jsvalue \<Rightarrow> bool" where
  "truthy JUndefined = False"
| "truthy JNull = False"
| "truthy (JBoolean b) = b"
| "truthy (JNumber n) = (n \<noteq> NaN \<and> n \<noteq> Finite 0)"
| "truthy (JString s) = (s \<noteq> [])"
| "truthy (JBigInt i) = (i \<noteq> 0)"

text \<open>What a \<^verbatim>\<open>throw\<close> or a rejected promise carries: the string literals the program
  throws, the \<^verbatim>\<open>RangeError\<close> of \<^verbatim>\<open>Date.prototype.toISOString\<close>, and the
  rejection of a collaborator.\<close>

datatype thrown = Thrown string | RangeError | Rejected string

section \<open>The data transfer objects\<close>

record MeterDto =
  sensorId :: string
  deviceId :: string
  powerConsumption :: jsnum
  maximumPowerConsumption :: jsnum

text \<open>
  A record of the history holds its timestamp as a string, which the program parses. The
  text of the string is not modelled: a string is the instant it denotes, to the
  millisecond, or it denotes none.
\<close>

datatype ISOString = ISO int | NotISO

record MotionRecord =
  timestamp :: ISOString

text \<open>A \<^verbatim>\<open>Date\<close> holds a time value in milliseconds since the epoch, or NaN
  (an invalid date).\<close>

datatype Date = Date int | InvalidDate

datatype Status = Static | Moving

text \<open>
  A motion reading as the object it is at run time: the common fields, the discriminant
  \<open>status\<close> and the property \<open>speed\<close>. The type of \<open>speed\<close> is a branded number,
  which the compiler does not enforce on data from outside; the program validates it at
  run time, so the field holds any value.
\<close>

record MotionDto =
  sensorId :: string
  deviceId :: string
  timestamp :: Date
  sensitivity :: string
  status :: Status
  speed :: jsvalue

text \<open>The two interfaces of the union. A \<^verbatim>\<open>StaticMotionDto\<close> declares no
  \<open>speed\<close>, so reading the property gives \<open>JUndefined\<close>.\<close>

definition StaticMotionDto :: "string \<Rightarrow> string \<Rightarrow> Date \<Rightarrow> string \<Rightarrow> MotionDto" where
  "StaticMotionDto sid did ts sens =
     \<lparr>sensorId = sid, deviceId = did, timestamp = ts, sensitivity = sens,
      status = Static, speed = JUndefined\<rparr>"

definition MovingMotionDto :: "string \<Rightarrow> string \<Rightarrow> Date \<Rightarrow> string \<Rightarrow> jsvalue \<Rightarrow> MotionDto" where
  "MovingMotionDto sid did ts sens sp =
     \<lparr>sensorId = sid, deviceId = did, timestamp = ts, sensitivity = sens,
      status = Moving, speed = sp\<rparr>"

section \<open>Classifier and validators\<close>

definition isPowerConsumptionHigh :: "MeterDto \<Rightarrow> bool" where
  "isPowerConsumptionHigh meterDto =
     num_gt (powerConsumption meterDto) (maximumPowerConsumption meterDto)"

text \<open>\<^verbatim>\<open>Number.isFinite(input)\<close>: false for every value that is not a number, with no
  coercion.\<close>

fun isNumber :: "jsvalue \<Rightarrow> bool" where
  "isNumber (JNumber n) = isFinite n"
| "isNumber v = False"

definition assertIsMoving :: "MotionDto \<Rightarrow> thrown + unit" where
  "assertIsMoving motionDto =
     (if status motionDto = Moving \<and> \<not> truthy (speed motionDto)
      then Inl (Thrown ''NotMoving!'')
      else Inr ())"

text \<open>
  Once \<open>isNumber\<close> has let a value through, it is a number and \<^verbatim>\<open>speed <= 0\<close> is the
  comparison of numbers. \<open>number_of\<close> reads that number; on the other values, which never
  reach the comparison, it is ToNumber of \<^verbatim>\<open>undefined\<close>.
\<close>

fun number_of :: "jsvalue \<Rightarrow> jsnum" where
  "number_of (JNumber n) = n"
| "number_of v = NaN"

definition assertNotZeroOrNegative :: "jsvalue \<Rightarrow> thrown + unit" where
  "assertNotZeroOrNegative v =
     (if \<not> isNumber v then Inl (Thrown ''UnknownDataType'')
      else if num_le (number_of v) (Finite 0) then Inl (Thrown ''NotZeroOrNegative'')
      else Inr ())"

definition isStatic :: "MotionDto \<Rightarrow> bool" where
  "isStatic motionDto = (status motionDto = Static)"

section \<open>Effects and collaborators\<close>

text \<open>
  What a call does to the outside, in the order it happens. \<^verbatim>\<open>console.warn\<close> is
  called as a template tag, so it receives the literal pieces of the template and, after
  them, the interpolated values.
\<close>

datatype event =
    GetLastMovingRecord string
  | GetLastStaticRecord string
  | ConsoleWarn "string list" "jsvalue list"
  | DbClientCreate MotionDto

fun isWarn :: "event \<Rightarrow> bool" where
  "isWarn (ConsoleWarn strings vals) = True"
| "isWarn e = False"

fun isFetch :: "event \<Rightarrow> bool" where
  "isFetch (GetLastMovingRecord d) = True"
| "isFetch (GetLastStaticRecord d) = True"
| "isFetch e = False"

fun isCreate :: "event \<Rightarrow> bool" where
  "isCreate (DbClientCreate m) = True"
| "isCreate e = False"

text \<open>
  The repository's lookups and its database client are not part of the source; they are
  parameters. Each answers with a value or rejects. The client is handed the clone only
  and is taken not to write to the objects of the program.
\<close>

record 'r MotionRepository =
  getLastMovingRecord :: "string \<Rightarrow> thrown + MotionRecord"
  getLastStaticRecord :: "string \<Rightarrow> thrown + MotionRecord"
  dbClient_create :: "MotionDto \<Rightarrow> thrown + 'r"

section \<open>Dates\<close>

text \<open>\<^verbatim>\<open>Date.prototype.toISOString\<close> throws a \<^verbatim>\<open>RangeError\<close> on an invalid
  date.\<close>

fun toISOString :: "Date \<Rightarrow> thrown + ISOString" where
  "toISOString (Date t) = Inr (ISO t)"
| "toISOString InvalidDate = Inl RangeError"

text \<open>
  Modelled from the spec: the date library (luxon) is imported, not part of the source.
  \<^verbatim>\<open>DateTime.fromISO\<close> gives the instant a string denotes, or an invalid
  \<^verbatim>\<open>DateTime\<close>; \<^verbatim>\<open>a.diff(b, 'hours').hours\<close> is the elapsed time from \<open>b\<close> to
  \<open>a\<close> in hours, fractional and signed, and NaN when one of the two is invalid. The
  quotient is kept exact.
\<close>

datatype DateTime = DateTime int | InvalidDateTime

fun fromISO :: "ISOString \<Rightarrow> DateTime" where
  "fromISO (ISO t) = DateTime t"
| "fromISO NotISO = InvalidDateTime"

fun diff_hours :: "DateTime \<Rightarrow> DateTime \<Rightarrow> jsnum" where
  "diff_hours (DateTime a) (DateTime b) = Finite (real_of_int (a - b) / 3600000)"
| "diff_hours a b = NaN"

section \<open>The repository: createMovingMotion\<close>

text \<open>
  Objects live in a store; a reference is an index into it. A motion reading holds
  primitive values and a date, so its deep copy is a new object with the same fields.
  \<^verbatim>\<open>structuredClone\<close> allocates that object at the end of the store.
\<close>

type_synonym ref = nat
type_synonym store = "MotionDto list"

definition structuredClone :: "store \<Rightarrow> ref \<Rightarrow> store \<times> ref" where
  "structuredClone h r = (h @ [h ! r], length h)"

definition sanitizeSpeed :: "jsvalue \<Rightarrow> jsvalue" where
  "sanitizeSpeed v = (let sanitizedSpeed = v in sanitizedSpeed)"

text \<open>The result of the call (a rejection or what the client returned), the store
  afterwards, and the events.\<close>

definition createMovingMotion ::
  "'r MotionRepository \<Rightarrow> store \<Rightarrow> ref \<Rightarrow> (thrown + 'r) \<times> store \<times> event list" where
  "createMovingMotion this h motionDto =
     (let (h1, sanitizedMotion) = structuredClone h motionDto in
      case assertIsMoving (h1 ! sanitizedMotion) of
        Inl e \<Rightarrow> (Inl e, h1, [])
      | Inr u \<Rightarrow>
         (case assertNotZeroOrNegative (speed (h1 ! sanitizedMotion)) of
            Inl e \<Rightarrow> (Inl e, h1, [])
          | Inr u \<Rightarrow>
             (let h2 = h1[sanitizedMotion :=
                        (h1 ! sanitizedMotion)
                          \<lparr>speed := sanitizeSpeed (speed (h1 ! sanitizedMotion))\<rparr>]
              in (dbClient_create this (h2 ! sanitizedMotion), h2,
                  [DbClientCreate (h2 ! sanitizedMotion)]))))"

section \<open>The rules\<close>

definition sanityCheckSensitivity ::
  "'r MotionRepository \<Rightarrow> MotionDto \<Rightarrow> (thrown + unit) \<times> event list" where
  "sanityCheckSensitivity motionRepository motionDto =
     (if isStatic motionDto then
        (case getLastMovingRecord motionRepository (deviceId motionDto) of
           Inl e \<Rightarrow> (Inl e, [GetLastMovingRecord (deviceId motionDto)])
         | Inr lastMovingRecord \<Rightarrow>
            (let lastMovingDate = fromISO (MotionRecord.timestamp lastMovingRecord) in
             case toISOString (timestamp motionDto) of
               Inl e \<Rightarrow> (Inl e, [GetLastMovingRecord (deviceId motionDto)])
             | Inr isoString \<Rightarrow>
                (let currentStaticDate = fromISO isoString;
                     diff = diff_hours currentStaticDate lastMovingDate
                 in (Inr (),
                     GetLastMovingRecord (deviceId motionDto) #
                     (if num_gt diff (Finite 12)
                      then [ConsoleWarn [''Sensitivity level is too low for device '', ''!'']
                                        [JString (deviceId motionDto)]]
                      else [])))))
      else
        (case getLastStaticRecord motionRepository (deviceId motionDto) of
           Inl e \<Rightarrow> (Inl e, [GetLastStaticRecord (deviceId motionDto)])
         | Inr lastStaticRecord \<Rightarrow>
            (let lastStaticDate = fromISO (MotionRecord.timestamp lastStaticRecord) in
             case toISOString (timestamp motionDto) of
               Inl e \<Rightarrow> (Inl e, [GetLastStaticRecord (deviceId motionDto)])
             | Inr isoString \<Rightarrow>
                (let currentMovingDate = fromISO isoString;
                     diff = diff_hours currentMovingDate lastStaticDate
                 in (Inr (),
                     GetLastStaticRecord (deviceId motionDto) #
                     (if num_gt diff (Finite 12)
                      then [ConsoleWarn [''Sensitivity level is too high for device '', ''!'']
                                        [JString (deviceId motionDto)]]
                      else []))))))"

definition notifyMeOnMovingHighConsumptionDevice ::
  "MotionDto \<Rightarrow> MeterDto \<Rightarrow> (thrown + unit) \<times> event list" where
  "notifyMeOnMovingHighConsumptionDevice motionDto meterDto =
     (if \<not> isPowerConsumptionHigh meterDto then (Inr (), [])
      else
        (case assertIsMoving motionDto of
           Inl e \<Rightarrow> (Inl e, [])
         | Inr u \<Rightarrow>
            (Inr (),
             [ConsoleWarn [''Current power consumption for device '', '' is high!'']
                          [JString (deviceId motionDto)],
              ConsoleWarn [''This could be caused because it is moving according to sensor '',
                           '' with the speed of '', []]
                          [JString (sensorId motionDto), speed motionDto]])))"

section \<open>Properties of the classifier\<close>

lemma isNumber_iff: "isNumber v \<longleftrightarrow> (\<exists>x. v = JNumber (Finite x))"
  by (cases v rule: isNumber.cases) (auto elim: isFinite.elims)

text \<open>
  C8. \<open>isPowerConsumptionHigh\<close> is the comparison \<^verbatim>\<open>powerConsumption >
  maximumPowerConsumption\<close>: on finite readings it holds exactly when the consumption is
  the greater real number, and it is false whenever the two fields are equal. It is a
  function of the meter reading alone, defined on every reading.
\<close>

theorem isPowerConsumptionHigh_iff:
  "(isPowerConsumptionHigh m \<longleftrightarrow> num_gt (powerConsumption m) (maximumPowerConsumption m))
   \<and> (\<forall>c x. isPowerConsumptionHigh (m\<lparr>powerConsumption := Finite c, maximumPowerConsumption := Finite x\<rparr>)
             = (c > x))
   \<and> (\<forall>a. \<not> isPowerConsumptionHigh (m\<lparr>powerConsumption := a, maximumPowerConsumption := a\<rparr>))"
proof -
  have eq: "\<not> num_gt a a" for a
    by (cases a) simp_all
  show ?thesis
    by (simp add: isPowerConsumptionHigh_def eq)
qed

section \<open>Properties of the validators\<close>

text \<open>
  C2. \<open>assertNotZeroOrNegative\<close> returns normally exactly on the finite numbers above
  zero. It throws \<^verbatim>\<open>'UnknownDataType'\<close> exactly on the values that are not a finite
  number, and \<^verbatim>\<open>'NotZeroOrNegative'\<close> exactly on the finite numbers that are zero or
  negative. The type check comes first: negative infinity is below zero and \<^verbatim>\<open>null\<close>
  is no number, and both are rejected as \<^verbatim>\<open>'UnknownDataType'\<close>. The two thrown values
  differ.
\<close>

theorem assertNotZeroOrNegative_cases:
  "(assertNotZeroOrNegative v = Inr () \<longleftrightarrow> (\<exists>x. v = JNumber (Finite x) \<and> 0 < x))
   \<and> (assertNotZeroOrNegative v = Inl (Thrown ''UnknownDataType'')
        \<longleftrightarrow> \<not> (\<exists>x. v = JNumber (Finite x)))
   \<and> (assertNotZeroOrNegative v = Inl (Thrown ''NotZeroOrNegative'')
        \<longleftrightarrow> (\<exists>x. v = JNumber (Finite x) \<and> x \<le> 0))
   \<and> num_le NegInfinity (Finite 0)
   \<and> assertNotZeroOrNegative (JNumber NegInfinity) = Inl (Thrown ''UnknownDataType'')
   \<and> assertNotZeroOrNegative (JNumber NaN) = Inl (Thrown ''UnknownDataType'')
   \<and> assertNotZeroOrNegative JUndefined = Inl (Thrown ''UnknownDataType'')
   \<and> assertNotZeroOrNegative JNull = Inl (Thrown ''UnknownDataType'')
   \<and> assertNotZeroOrNegative (JString s) = Inl (Thrown ''UnknownDataType'')
   \<and> Thrown ''UnknownDataType'' \<noteq> Thrown ''NotZeroOrNegative''"
  by (auto simp: assertNotZeroOrNegative_def isNumber_iff)

text \<open>
  C3. On a reading tagged moving, \<open>assertIsMoving\<close> returns normally when the speed is
  truthy and throws \<^verbatim>\<open>'NotMoving!'\<close> otherwise, in particular when the speed is zero or
  the property is missing. On a reading tagged static it checks nothing and returns
  normally, whatever the object holds.
\<close>

theorem assertIsMoving_cases:
  "assertIsMoving m =
     (if status m = Moving
      then (if truthy (speed m) then Inr () else Inl (Thrown ''NotMoving!''))
      else Inr ())
   \<and> assertIsMoving (MovingMotionDto sid did ts sens (JNumber (Finite x)))
       = (if x = 0 then Inl (Thrown ''NotMoving!'') else Inr ())
   \<and> assertIsMoving (MovingMotionDto sid did ts sens JUndefined) = Inl (Thrown ''NotMoving!'')
   \<and> assertIsMoving (StaticMotionDto sid did ts sens) = Inr ()
   \<and> assertIsMoving (m\<lparr>status := Static\<rparr>) = Inr ()"
  by (simp add: assertIsMoving_def MovingMotionDto_def StaticMotionDto_def)

section \<open>Properties of createMovingMotion\<close>

lemma createMovingMotion_store:
  "\<exists>c. fst (snd (createMovingMotion this h r)) = h @ [c]"
  by (simp add: createMovingMotion_def structuredClone_def Let_def split: sum.splits)

lemma createMovingMotion_fail1:
  "assertIsMoving (h ! r) = Inl e \<Longrightarrow>
   createMovingMotion this h r = (Inl e, h @ [h ! r], [])"
  by (simp add: createMovingMotion_def structuredClone_def Let_def nth_append)

lemma createMovingMotion_fail2:
  "assertIsMoving (h ! r) = Inr () \<Longrightarrow> assertNotZeroOrNegative (speed (h ! r)) = Inl e \<Longrightarrow>
   createMovingMotion this h r = (Inl e, h @ [h ! r], [])"
  by (simp add: createMovingMotion_def structuredClone_def Let_def nth_append)

lemma createMovingMotion_ok:
  "assertIsMoving (h ! r) = Inr () \<Longrightarrow> assertNotZeroOrNegative (speed (h ! r)) = Inr () \<Longrightarrow>
   createMovingMotion this h r =
     (dbClient_create this (h ! r), h @ [h ! r], [DbClientCreate (h ! r)])"
  by (simp add: createMovingMotion_def structuredClone_def Let_def nth_append sanitizeSpeed_def)

text \<open>
  C1. Whatever the outcome of \<open>createMovingMotion\<close> (a rejection by a validator, a
  rejection by the client, or a result), the object the caller passed holds afterwards
  what it held before, and so does every other object that existed: the store afterwards
  is the store before with one new object, the clone, at its end.
\<close>

theorem createMovingMotion_input_unchanged:
  assumes "motionDto < length h"
  shows "fst (snd (createMovingMotion this h motionDto)) ! motionDto = h ! motionDto
         \<and> take (length h) (fst (snd (createMovingMotion this h motionDto))) = h
         \<and> length (fst (snd (createMovingMotion this h motionDto))) = Suc (length h)"
proof -
  obtain c where c: "fst (snd (createMovingMotion this h motionDto)) = h @ [c]"
    using createMovingMotion_store by blast
  show ?thesis
    using assms by (simp add: c nth_append)
qed

theorem createMovingMotion_input_unchanged_witness:
  "(0::nat) < length [MovingMotionDto ''s1'' ''d1'' (Date 0) ''low'' (JNumber (Finite 3))]
   \<and> fst (snd (createMovingMotion
        \<lparr>getLastMovingRecord = \<lambda>d. Inl (Rejected ''none''),
         getLastStaticRecord = \<lambda>d. Inl (Rejected ''none''),
         dbClient_create = \<lambda>m. Inr (speed m)\<rparr>
        [MovingMotionDto ''s1'' ''d1'' (Date 0) ''low'' (JNumber (Finite 3))] 0)) ! 0
      = MovingMotionDto ''s1'' ''d1'' (Date 0) ''low'' (JNumber (Finite 3))"
  using createMovingMotion_input_unchanged
    [of 0 "[MovingMotionDto ''s1'' ''d1'' (Date 0) ''low'' (JNumber (Finite 3))]"
        "\<lparr>getLastMovingRecord = \<lambda>d. Inl (Rejected ''none''),
          getLastStaticRecord = \<lambda>d. Inl (Rejected ''none''),
          dbClient_create = \<lambda>m. Inr (speed m)\<rparr>"]
  by simp

text \<open>
  C7. When \<open>assertIsMoving\<close> throws on the reading, or it passes and
  \<open>assertNotZeroOrNegative\<close> throws on the reading's speed, \<open>createMovingMotion\<close> rejects
  with that same value and the client's \<open>create\<close> is not called. \<open>create\<close> is called
  exactly when both validators pass.
\<close>

theorem createMovingMotion_validates_before_create:
  "(assertIsMoving (h1 ! r1) = Inl e1 \<longrightarrow>
      fst (createMovingMotion this h1 r1) = Inl e1
      \<and> filter isCreate (snd (snd (createMovingMotion this h1 r1))) = [])
   \<and> (assertIsMoving (h2 ! r2) = Inr () \<and> assertNotZeroOrNegative (speed (h2 ! r2)) = Inl e2 \<longrightarrow>
      fst (createMovingMotion this h2 r2) = Inl e2
      \<and> filter isCreate (snd (snd (createMovingMotion this h2 r2))) = [])
   \<and> (filter isCreate (snd (snd (createMovingMotion this h r))) \<noteq> [] \<longleftrightarrow>
        assertIsMoving (h ! r) = Inr ()
        \<and> assertNotZeroOrNegative (speed (h ! r)) = Inr ())"
proof -
  have "filter isCreate (snd (snd (createMovingMotion this h r))) \<noteq> [] \<longleftrightarrow>
        assertIsMoving (h ! r) = Inr ()
        \<and> assertNotZeroOrNegative (speed (h ! r)) = Inr ()"
  proof (cases "assertIsMoving (h ! r)")
    case (Inl a)
    then show ?thesis by (simp add: createMovingMotion_fail1)
  next
    case (Inr u)
    then have m: "assertIsMoving (h ! r) = Inr ()" by simp
    show ?thesis
    proof (cases "assertNotZeroOrNegative (speed (h ! r))")
      case (Inl a)
      with m show ?thesis by (simp add: createMovingMotion_fail2)
    next
      case (Inr v)
      then have "assertNotZeroOrNegative (speed (h ! r)) = Inr ()" by simp
      with m show ?thesis by (simp add: createMovingMotion_ok)
    qed
  qed
  then show ?thesis
    by (simp add: createMovingMotion_fail1 createMovingMotion_fail2)
qed

theorem createMovingMotion_validates_before_create_witness:
  "assertIsMoving ([MovingMotionDto ''s1'' ''d1'' (Date 0) ''low'' (JNumber (Finite 0))] ! 0)
     = Inl (Thrown ''NotMoving!'')
   \<and> fst (createMovingMotion
        \<lparr>getLastMovingRecord = \<lambda>d. Inl (Rejected ''none''),
         getLastStaticRecord = \<lambda>d. Inl (Rejected ''none''),
         dbClient_create = \<lambda>m. Inr (speed m)\<rparr>
        [MovingMotionDto ''s1'' ''d1'' (Date 0) ''low'' (JNumber (Finite 0))] 0)
      = Inl (Thrown ''NotMoving!'')
   \<and> assertIsMoving ([MovingMotionDto ''s1'' ''d1'' (Date 0) ''low'' (JNumber (Finite (- 2)))] ! 0)
     = Inr ()
   \<and> assertNotZeroOrNegative
        (speed ([MovingMotionDto ''s1'' ''d1'' (Date 0) ''low'' (JNumber (Finite (- 2)))] ! 0))
     = Inl (Thrown ''NotZeroOrNegative'')
   \<and> filter isCreate (snd (snd (createMovingMotion
        \<lparr>getLastMovingRecord = \<lambda>d. Inl (Rejected ''none''),
         getLastStaticRecord = \<lambda>d. Inl (Rejected ''none''),
         dbClient_create = \<lambda>m. Inr (speed m)\<rparr>
        [MovingMotionDto ''s1'' ''d1'' (Date 0) ''low'' (JNumber (Finite (- 2)))] 0))) = []"
  using createMovingMotion_validates_before_create
    [of "[MovingMotionDto ''s1'' ''d1'' (Date 0) ''low'' (JNumber (Finite 0))]" 0
        "Thrown ''NotMoving!''"
        "\<lparr>getLastMovingRecord = \<lambda>d. Inl (Rejected ''none''),
          getLastStaticRecord = \<lambda>d. Inl (Rejected ''none''),
          dbClient_create = \<lambda>m. Inr (speed m)\<rparr>"
        "[MovingMotionDto ''s1'' ''d1'' (Date 0) ''low'' (JNumber (Finite (- 2)))]" 0
        "Thrown ''NotZeroOrNegative''"]
  by (simp add: assertIsMoving_def assertNotZeroOrNegative_def MovingMotionDto_def)




section \<open>Properties of the rules\<close>

lemma sanityCheckSensitivity_fetches:
  "filter isFetch (snd (sanityCheckSensitivity repo m)) =
     [if status m = Static then GetLastMovingRecord (deviceId m)
      else GetLastStaticRecord (deviceId m)]"
  by (simp add: sanityCheckSensitivity_def isStatic_def Let_def split: sum.splits)

lemma sanityCheckSensitivity_static:
  "status m = Static \<Longrightarrow> timestamp m = Date t \<Longrightarrow>
   getLastMovingRecord repo (deviceId m) = Inr r \<Longrightarrow> MotionRecord.timestamp r = ISO t0 \<Longrightarrow>
   sanityCheckSensitivity repo m =
     (Inr (),
      GetLastMovingRecord (deviceId m) #
      (if real_of_int (t - t0) / 3600000 > 12
       then [ConsoleWarn [''Sensitivity level is too low for device '', ''!'']
                         [JString (deviceId m)]]
       else []))"
  by (simp add: sanityCheckSensitivity_def isStatic_def)

lemma sanityCheckSensitivity_moving:
  "status m = Moving \<Longrightarrow> timestamp m = Date t \<Longrightarrow>
   getLastStaticRecord repo (deviceId m) = Inr r \<Longrightarrow> MotionRecord.timestamp r = ISO t0 \<Longrightarrow>
   sanityCheckSensitivity repo m =
     (Inr (),
      GetLastStaticRecord (deviceId m) #
      (if real_of_int (t - t0) / 3600000 > 12
       then [ConsoleWarn [''Sensitivity level is too high for device '', ''!'']
                         [JString (deviceId m)]]
       else []))"
  by (simp add: sanityCheckSensitivity_def isStatic_def)

lemma sanityCheckSensitivity_warns:
  assumes "(if isStatic m then getLastMovingRecord repo (deviceId m)
            else getLastStaticRecord repo (deviceId m)) = Inr r"
    and "MotionRecord.timestamp r = ISO t0"
    and "timestamp m = Date t"
  shows "filter isWarn (snd (sanityCheckSensitivity repo m)) \<noteq> [] \<longleftrightarrow>
           real_of_int (t - t0) / 3600000 > 12"
proof (cases "status m")
  case Static
  with assms show ?thesis
    by (simp add: sanityCheckSensitivity_static [where t = t and ?t0.0 = t0 and r = r]
        isStatic_def)
next
  case Moving
  with assms show ?thesis
    by (simp add: sanityCheckSensitivity_moving [where t = t and ?t0.0 = t0 and r = r]
        isStatic_def)
qed

lemma sanityCheckSensitivity_warns_only:
  assumes "filter isWarn (snd (sanityCheckSensitivity repo m)) \<noteq> []"
  shows "\<exists>t t0 r. timestamp m = Date t
           \<and> (if isStatic m then getLastMovingRecord repo (deviceId m)
               else getLastStaticRecord repo (deviceId m)) = Inr r
           \<and> MotionRecord.timestamp r = ISO t0
           \<and> real_of_int (t - t0) / 3600000 > 12"
proof (cases "timestamp m")
  case (Date t)
  show ?thesis
  proof (cases "if isStatic m then getLastMovingRecord repo (deviceId m)
               else getLastStaticRecord repo (deviceId m)")
    case (Inl e)
    with assms show ?thesis
      by (simp add: sanityCheckSensitivity_def split: if_splits)
  next
    case (Inr r)
    show ?thesis
    proof (cases "MotionRecord.timestamp r")
      case (ISO t0)
      from Inr ISO Date
      have "filter isWarn (snd (sanityCheckSensitivity repo m)) \<noteq> [] \<longleftrightarrow>
              real_of_int (t - t0) / 3600000 > 12"
        by (rule sanityCheckSensitivity_warns)
      with assms Date Inr ISO show ?thesis by blast
    next
      case NotISO
      with assms Inr Date show ?thesis
        by (simp add: sanityCheckSensitivity_def split: if_splits)
    qed
  qed
next
  case InvalidDate
  with assms show ?thesis
    by (simp add: sanityCheckSensitivity_def split: if_splits sum.splits)
qed

text \<open>
  C4. Take a reading whose opposite-state record is found and carries the instant \<open>t0\<close>.
  With the reading's timestamp at the instant \<open>t\<close>, a warning is emitted exactly when the
  elapsed time \<open>t - t0\<close>, in hours, is strictly greater than 12. At 12 hours to the
  millisecond there is none, one millisecond later there is one, and when the reading is
  not later than the record there is none. For every reading and repository, a warning
  implies that both instants are valid and more than 12 hours apart.
\<close>

theorem sanityCheckSensitivity_threshold:
  assumes "(if isStatic m then getLastMovingRecord repo (deviceId m)
            else getLastStaticRecord repo (deviceId m)) = Inr r"
    and "MotionRecord.timestamp r = ISO t0"
  shows "(filter isWarn (snd (sanityCheckSensitivity repo (m\<lparr>timestamp := Date t\<rparr>))) \<noteq> []
            \<longleftrightarrow> real_of_int (t - t0) / 3600000 > 12)
         \<and> filter isWarn
             (snd (sanityCheckSensitivity repo (m\<lparr>timestamp := Date (t0 + 43200000)\<rparr>))) = []
         \<and> filter isWarn
             (snd (sanityCheckSensitivity repo (m\<lparr>timestamp := Date (t0 + 43200001)\<rparr>))) \<noteq> []
         \<and> filter isWarn
             (snd (sanityCheckSensitivity repo (m\<lparr>timestamp := Date (t0 - int n)\<rparr>))) = []
         \<and> (filter isWarn (snd (sanityCheckSensitivity repo' m')) \<noteq> [] \<longrightarrow>
              (\<exists>t' t0' r'. timestamp m' = Date t'
                 \<and> (if isStatic m' then getLastMovingRecord repo' (deviceId m')
                     else getLastStaticRecord repo' (deviceId m')) = Inr r'
                 \<and> MotionRecord.timestamp r' = ISO t0'
                 \<and> real_of_int (t' - t0') / 3600000 > 12))"
proof -
  have w: "filter isWarn (snd (sanityCheckSensitivity repo (m\<lparr>timestamp := Date u\<rparr>))) \<noteq> []
             \<longleftrightarrow> real_of_int (u - t0) / 3600000 > 12" for u
  proof (rule sanityCheckSensitivity_warns)
    show "(if isStatic (m\<lparr>timestamp := Date u\<rparr>)
           then getLastMovingRecord repo (deviceId (m\<lparr>timestamp := Date u\<rparr>))
           else getLastStaticRecord repo (deviceId (m\<lparr>timestamp := Date u\<rparr>))) = Inr r"
      using assms(1) by (simp add: isStatic_def split: if_splits)
    show "MotionRecord.timestamp r = ISO t0" by (rule assms(2))
    show "timestamp (m\<lparr>timestamp := Date u\<rparr>) = Date u" by simp
  qed
  have a: "filter isWarn
             (snd (sanityCheckSensitivity repo (m\<lparr>timestamp := Date (t0 + 43200000)\<rparr>))) = []"
    using w [of "t0 + 43200000"] by simp
  have b: "filter isWarn
             (snd (sanityCheckSensitivity repo (m\<lparr>timestamp := Date (t0 + 43200001)\<rparr>))) \<noteq> []"
    using w [of "t0 + 43200001"] by simp
  have c: "filter isWarn
             (snd (sanityCheckSensitivity repo (m\<lparr>timestamp := Date (t0 - int n)\<rparr>))) = []"
    using w [of "t0 - int n"] by simp
  show ?thesis
    using w [of t] a b c sanityCheckSensitivity_warns_only [of repo' m'] by blast
qed

theorem sanityCheckSensitivity_threshold_witness:
  "filter isWarn (snd (sanityCheckSensitivity
      \<lparr>getLastMovingRecord = \<lambda>d. Inr \<lparr>MotionRecord.timestamp = ISO 0\<rparr>,
       getLastStaticRecord = \<lambda>d. Inl (Rejected ''none''),
       dbClient_create = \<lambda>m. Inr ()\<rparr>
      (StaticMotionDto ''s1'' ''d1'' (Date 46800000) ''low''))) \<noteq> []
   \<and> filter isWarn (snd (sanityCheckSensitivity
      \<lparr>getLastMovingRecord = \<lambda>d. Inr \<lparr>MotionRecord.timestamp = ISO 0\<rparr>,
       getLastStaticRecord = \<lambda>d. Inl (Rejected ''none''),
       dbClient_create = \<lambda>m. Inr ()\<rparr>
      (StaticMotionDto ''s1'' ''d1'' (Date 43200000) ''low''))) = []
   \<and> filter isWarn (snd (sanityCheckSensitivity
      \<lparr>getLastMovingRecord = \<lambda>d. Inr \<lparr>MotionRecord.timestamp = ISO 0\<rparr>,
       getLastStaticRecord = \<lambda>d. Inl (Rejected ''none''),
       dbClient_create = \<lambda>m. Inr ()\<rparr>
      (StaticMotionDto ''s1'' ''d1'' (Date (- 5)) ''low''))) = []"
  using sanityCheckSensitivity_threshold
    [of "StaticMotionDto ''s1'' ''d1'' (Date 46800000) ''low''"
        "\<lparr>getLastMovingRecord = \<lambda>d. Inr \<lparr>MotionRecord.timestamp = ISO 0\<rparr>,
          getLastStaticRecord = \<lambda>d. Inl (Rejected ''none''),
          dbClient_create = \<lambda>m. Inr ()\<rparr>"
        "\<lparr>MotionRecord.timestamp = ISO 0\<rparr>" 0 46800000 5
        "\<lparr>getLastMovingRecord = \<lambda>d. Inr \<lparr>MotionRecord.timestamp = ISO 0\<rparr>,
          getLastStaticRecord = \<lambda>d. Inl (Rejected ''none''),
          dbClient_create = \<lambda>m. Inr ()\<rparr>"
        "StaticMotionDto ''s1'' ''d1'' (Date 46800000) ''low''"]
  by (simp add: StaticMotionDto_def isStatic_def)

text \<open>
  C5. Every call makes one lookup, for the reading's device and the opposite state: the
  last moving record for a static reading, the last static record for a moving one. When
  the record is found and the reading is more than 12 hours later, the call then warns
  once, with the template of ``too low'' for a static reading and of ``too high'' for a
  moving one, and the device identifier as the value.
\<close>

theorem sanityCheckSensitivity_opposite_record:
  "(status ms = Static \<longrightarrow>
      filter isFetch (snd (sanityCheckSensitivity repo ms)) = [GetLastMovingRecord (deviceId ms)])
   \<and> (status mm = Moving \<longrightarrow>
      filter isFetch (snd (sanityCheckSensitivity repo mm)) = [GetLastStaticRecord (deviceId mm)])
   \<and> (status ms = Static \<and> timestamp ms = Date ts
       \<and> getLastMovingRecord repo (deviceId ms) = Inr rs \<and> MotionRecord.timestamp rs = ISO us
       \<and> real_of_int (ts - us) / 3600000 > 12 \<longrightarrow>
      sanityCheckSensitivity repo ms =
        (Inr (),
         [GetLastMovingRecord (deviceId ms),
          ConsoleWarn [''Sensitivity level is too low for device '', ''!'']
                      [JString (deviceId ms)]]))
   \<and> (status mm = Moving \<and> timestamp mm = Date tm
       \<and> getLastStaticRecord repo (deviceId mm) = Inr rm \<and> MotionRecord.timestamp rm = ISO um
       \<and> real_of_int (tm - um) / 3600000 > 12 \<longrightarrow>
      sanityCheckSensitivity repo mm =
        (Inr (),
         [GetLastStaticRecord (deviceId mm),
          ConsoleWarn [''Sensitivity level is too high for device '', ''!'']
                      [JString (deviceId mm)]]))"
proof -
  have s: "status ms = Static \<and> timestamp ms = Date ts
       \<and> getLastMovingRecord repo (deviceId ms) = Inr rs \<and> MotionRecord.timestamp rs = ISO us
       \<and> real_of_int (ts - us) / 3600000 > 12 \<longrightarrow>
      sanityCheckSensitivity repo ms =
        (Inr (),
         [GetLastMovingRecord (deviceId ms),
          ConsoleWarn [''Sensitivity level is too low for device '', ''!'']
                      [JString (deviceId ms)]])"
    by (simp add: sanityCheckSensitivity_static [where t = ts and ?t0.0 = us and r = rs])
  have m: "status mm = Moving \<and> timestamp mm = Date tm
       \<and> getLastStaticRecord repo (deviceId mm) = Inr rm \<and> MotionRecord.timestamp rm = ISO um
       \<and> real_of_int (tm - um) / 3600000 > 12 \<longrightarrow>
      sanityCheckSensitivity repo mm =
        (Inr (),
         [GetLastStaticRecord (deviceId mm),
          ConsoleWarn [''Sensitivity level is too high for device '', ''!'']
                      [JString (deviceId mm)]])"
    by (simp add: sanityCheckSensitivity_moving [where t = tm and ?t0.0 = um and r = rm])
  show ?thesis
    using s m by (simp add: sanityCheckSensitivity_fetches)
qed

theorem sanityCheckSensitivity_opposite_record_witness:
  "sanityCheckSensitivity
      \<lparr>getLastMovingRecord = \<lambda>d. Inr \<lparr>MotionRecord.timestamp = ISO 0\<rparr>,
       getLastStaticRecord = \<lambda>d. Inr \<lparr>MotionRecord.timestamp = ISO 1000\<rparr>,
       dbClient_create = \<lambda>m. Inr ()\<rparr>
      (StaticMotionDto ''s1'' ''d1'' (Date 46800000) ''low'')
     = (Inr (),
        [GetLastMovingRecord ''d1'',
         ConsoleWarn [''Sensitivity level is too low for device '', ''!''] [JString ''d1'']])
   \<and> sanityCheckSensitivity
      \<lparr>getLastMovingRecord = \<lambda>d. Inr \<lparr>MotionRecord.timestamp = ISO 0\<rparr>,
       getLastStaticRecord = \<lambda>d. Inr \<lparr>MotionRecord.timestamp = ISO 1000\<rparr>,
       dbClient_create = \<lambda>m. Inr ()\<rparr>
      (MovingMotionDto ''s2'' ''d2'' (Date 46801000) ''high'' (JNumber (Finite 5)))
     = (Inr (),
        [GetLastStaticRecord ''d2'',
         ConsoleWarn [''Sensitivity level is too high for device '', ''!''] [JString ''d2'']])"
  using sanityCheckSensitivity_opposite_record
    [of "StaticMotionDto ''s1'' ''d1'' (Date 46800000) ''low''"
        "\<lparr>getLastMovingRecord = \<lambda>d. Inr \<lparr>MotionRecord.timestamp = ISO 0\<rparr>,
          getLastStaticRecord = \<lambda>d. Inr \<lparr>MotionRecord.timestamp = ISO 1000\<rparr>,
          dbClient_create = \<lambda>m. Inr ()\<rparr>"
        "MovingMotionDto ''s2'' ''d2'' (Date 46801000) ''high'' (JNumber (Finite 5))"
        46800000 "\<lparr>MotionRecord.timestamp = ISO 0\<rparr>" 0
        46801000 "\<lparr>MotionRecord.timestamp = ISO 1000\<rparr>" 1000]
  by (simp add: StaticMotionDto_def MovingMotionDto_def)

text \<open>
  C6. When the meter's consumption is not above its maximum,
  \<open>notifyMeOnMovingHighConsumptionDevice\<close> returns normally with no event, on every
  reading, also on one that \<open>assertIsMoving\<close> would reject. When it is above, a throw
  of \<open>assertIsMoving\<close> is the outcome of the call and nothing is emitted; when
  \<open>assertIsMoving\<close> passes, two warnings are emitted, the first with the device
  identifier, the second with the sensor identifier and the reading's speed.
\<close>

theorem notifyMeOnMovingHighConsumptionDevice_cases:
  "(\<not> isPowerConsumptionHigh meter0 \<longrightarrow>
      notifyMeOnMovingHighConsumptionDevice m0 meter0 = (Inr (), []))
   \<and> (isPowerConsumptionHigh meter1 \<and> assertIsMoving m1 = Inl e \<longrightarrow>
      notifyMeOnMovingHighConsumptionDevice m1 meter1 = (Inl e, []))
   \<and> (isPowerConsumptionHigh meter2 \<and> assertIsMoving m2 = Inr () \<longrightarrow>
      notifyMeOnMovingHighConsumptionDevice m2 meter2 =
        (Inr (),
         [ConsoleWarn [''Current power consumption for device '', '' is high!'']
                      [JString (deviceId m2)],
          ConsoleWarn [''This could be caused because it is moving according to sensor '',
                       '' with the speed of '', []]
                      [JString (sensorId m2), speed m2]]))"
  by (simp add: notifyMeOnMovingHighConsumptionDevice_def)

theorem notifyMeOnMovingHighConsumptionDevice_cases_witness:
  "assertIsMoving (MovingMotionDto ''s1'' ''d1'' (Date 0) ''low'' (JNumber (Finite 0)))
     = Inl (Thrown ''NotMoving!'')
   \<and> notifyMeOnMovingHighConsumptionDevice
       (MovingMotionDto ''s1'' ''d1'' (Date 0) ''low'' (JNumber (Finite 0)))
       \<lparr>MeterDto.sensorId = ''p1'', MeterDto.deviceId = ''d1'',
        powerConsumption = Finite 40, maximumPowerConsumption = Finite 50\<rparr>
     = (Inr (), [])
   \<and> notifyMeOnMovingHighConsumptionDevice
       (MovingMotionDto ''s1'' ''d1'' (Date 0) ''low'' (JNumber (Finite 0)))
       \<lparr>MeterDto.sensorId = ''p1'', MeterDto.deviceId = ''d1'',
        powerConsumption = Finite 100, maximumPowerConsumption = Finite 50\<rparr>
     = (Inl (Thrown ''NotMoving!''), [])
   \<and> notifyMeOnMovingHighConsumptionDevice
       (MovingMotionDto ''s1'' ''d1'' (Date 0) ''low'' (JNumber (Finite 5)))
       \<lparr>MeterDto.sensorId = ''p1'', MeterDto.deviceId = ''d1'',
        powerConsumption = Finite 100, maximumPowerConsumption = Finite 50\<rparr>
     = (Inr (),
        [ConsoleWarn [''Current power consumption for device '', '' is high!'']
                     [JString ''d1''],
         ConsoleWarn [''This could be caused because it is moving according to sensor '',
                      '' with the speed of '', []]
                     [JString ''s1'', JNumber (Finite 5)]])"
  using notifyMeOnMovingHighConsumptionDevice_cases
    [of "\<lparr>MeterDto.sensorId = ''p1'', MeterDto.deviceId = ''d1'',
          powerConsumption = Finite 40, maximumPowerConsumption = Finite 50\<rparr>"
        "MovingMotionDto ''s1'' ''d1'' (Date 0) ''low'' (JNumber (Finite 0))"
        "\<lparr>MeterDto.sensorId = ''p1'', MeterDto.deviceId = ''d1'',
          powerConsumption = Finite 100, maximumPowerConsumption = Finite 50\<rparr>"
        "MovingMotionDto ''s1'' ''d1'' (Date 0) ''low'' (JNumber (Finite 0))"
        "Thrown ''NotMoving!''"
        "\<lparr>MeterDto.sensorId = ''p1'', MeterDto.deviceId = ''d1'',
          powerConsumption = Finite 100, maximumPowerConsumption = Finite 50\<rparr>"
        "MovingMotionDto ''s1'' ''d1'' (Date 0) ''low'' (JNumber (Finite 5))"]
  by (simp add: isPowerConsumptionHigh_def assertIsMoving_def MovingMotionDto_def)

text \<open>
  C10, as amended. On a reading tagged static and a meter whose consumption is above its
  maximum, \<open>notifyMeOnMovingHighConsumptionDevice\<close> returns normally and emits both
  warnings; the speed handed to the second one is whatever the reading's \<open>speed\<close>
  property holds. It is \<^verbatim>\<open>undefined\<close> when the reading has no speed, as the interface
  \<^verbatim>\<open>StaticMotionDto\<close> declares. The claim as worded, that the speed reported is
  \<^verbatim>\<open>undefined\<close> for every reading tagged static, fails on one that carries a speed:
  see the counterexample below.
\<close>

theorem notifyMeOnMovingHighConsumptionDevice_static:
  assumes "isPowerConsumptionHigh meterDto"
    and "status motionDto = Static"
  shows "notifyMeOnMovingHighConsumptionDevice motionDto meterDto =
     (Inr (),
      [ConsoleWarn [''Current power consumption for device '', '' is high!'']
                   [JString (deviceId motionDto)],
       ConsoleWarn [''This could be caused because it is moving according to sensor '',
                    '' with the speed of '', []]
                   [JString (sensorId motionDto), speed motionDto]])
    \<and> notifyMeOnMovingHighConsumptionDevice (StaticMotionDto sid did ts sens) meterDto =
     (Inr (),
      [ConsoleWarn [''Current power consumption for device '', '' is high!''] [JString did],
       ConsoleWarn [''This could be caused because it is moving according to sensor '',
                    '' with the speed of '', []]
                   [JString sid, JUndefined]])"
  using assms
  by (simp add: notifyMeOnMovingHighConsumptionDevice_def assertIsMoving_def StaticMotionDto_def)

theorem notifyMeOnMovingHighConsumptionDevice_static_witness:
  "isPowerConsumptionHigh
     \<lparr>MeterDto.sensorId = ''p1'', MeterDto.deviceId = ''d1'',
      powerConsumption = Finite 100, maximumPowerConsumption = Finite 50\<rparr>
   \<and> status ((StaticMotionDto ''s1'' ''d1'' (Date 0) ''low'')\<lparr>speed := JString ''fast''\<rparr>) = Static
   \<and> notifyMeOnMovingHighConsumptionDevice
       ((StaticMotionDto ''s1'' ''d1'' (Date 0) ''low'')\<lparr>speed := JString ''fast''\<rparr>)
       \<lparr>MeterDto.sensorId = ''p1'', MeterDto.deviceId = ''d1'',
        powerConsumption = Finite 100, maximumPowerConsumption = Finite 50\<rparr>
     = (Inr (),
        [ConsoleWarn [''Current power consumption for device '', '' is high!'']
                     [JString ''d1''],
         ConsoleWarn [''This could be caused because it is moving according to sensor '',
                      '' with the speed of '', []]
                     [JString ''s1'', JString ''fast'']])
   \<and> notifyMeOnMovingHighConsumptionDevice (StaticMotionDto ''s2'' ''d2'' (Date 0) ''low'')
       \<lparr>MeterDto.sensorId = ''p1'', MeterDto.deviceId = ''d1'',
        powerConsumption = Finite 100, maximumPowerConsumption = Finite 50\<rparr>
     = (Inr (),
        [ConsoleWarn [''Current power consumption for device '', '' is high!'']
                     [JString ''d2''],
         ConsoleWarn [''This could be caused because it is moving according to sensor '',
                      '' with the speed of '', []]
                     [JString ''s2'', JUndefined]])"
proof -
  have h: "isPowerConsumptionHigh
     \<lparr>MeterDto.sensorId = ''p1'', MeterDto.deviceId = ''d1'',
      powerConsumption = Finite 100, maximumPowerConsumption = Finite 50\<rparr>"
    by (simp add: isPowerConsumptionHigh_def)
  have s: "status ((StaticMotionDto ''s1'' ''d1'' (Date 0) ''low'')\<lparr>speed := JString ''fast''\<rparr>)
             = Static"
    by (simp add: StaticMotionDto_def)
  show ?thesis
    using h s notifyMeOnMovingHighConsumptionDevice_static
      [OF h s, of "''s2''" "''d2''" "Date 0" "''low''"]
    by (simp add: StaticMotionDto_def)
qed

text \<open>
  A reading tagged static that carries the speed 4, with a meter at 100 of 50: the second
  warning is handed the number 4, not \<^verbatim>\<open>undefined\<close>.
\<close>

theorem notifyMeOnMovingHighConsumptionDevice_static_counterexample:
  "status ((StaticMotionDto ''s1'' ''d1'' (Date 0) ''low'')\<lparr>speed := JNumber (Finite 4)\<rparr>) = Static
   \<and> isPowerConsumptionHigh
       \<lparr>MeterDto.sensorId = ''p1'', MeterDto.deviceId = ''d1'',
        powerConsumption = Finite 100, maximumPowerConsumption = Finite 50\<rparr>
   \<and> notifyMeOnMovingHighConsumptionDevice
       ((StaticMotionDto ''s1'' ''d1'' (Date 0) ''low'')\<lparr>speed := JNumber (Finite 4)\<rparr>)
       \<lparr>MeterDto.sensorId = ''p1'', MeterDto.deviceId = ''d1'',
        powerConsumption = Finite 100, maximumPowerConsumption = Finite 50\<rparr>
     = (Inr (),
        [ConsoleWarn [''Current power consumption for device '', '' is high!'']
                     [JString ''d1''],
         ConsoleWarn [''This could be caused because it is moving according to sensor '',
                      '' with the speed of '', []]
                     [JString ''s1'', JNumber (Finite 4)]])
   \<and> JNumber (Finite 4) \<noteq> JUndefined"
  by (simp add: notifyMeOnMovingHighConsumptionDevice_def isPowerConsumptionHigh_def
      assertIsMoving_def StaticMotionDto_def)

end
